theory Spec2Isabelle
  imports Complex_Main
begin

section \<open>The anchor carousel of \<open>src/carousel.js\<close>\<close>

text \<open>
  The component \<open>Carousel\<close> is a function of its props; the helper functions it declares
  close over those props, so each of them takes the props record as its first argument
  here. JavaScript numbers that carry lengths and scroll positions are modelled as exact
  reals (NaN and the infinities of IEEE doubles are outside the model); the rounding of
  binary64 arithmetic is modelled separately, for the offset functions, in the subsection
  on binary64 arithmetic. Item indices and the length of the data are integers.
\<close>

subsection \<open>Props\<close>

text \<open>
  The destructured props of \<open>Carousel\<close> (lines 67 to 87). \<open>data\<close> is \<open>None\<close> when the
  caller passes \<open>null\<close>. A callback prop is recorded by its truthiness only: the code
  guards every call with \<open>cb && cb(...)\<close>, and what the callback does is the caller's.
\<close>

record 'a props =
  data :: "'a list option"
  containerWidth :: real
  itemWidth :: real
  separatorWidth :: real
  minScrollDistance :: real
  inActiveScale :: real
  inActiveOpacity :: real
  inverted :: bool
  initialIndex :: int
  onScrollEnd :: bool
  onScrollBeginDrag :: bool
  onScrollEndDrag :: bool

subsection \<open>Geometry\<close>

definition halfContainerWidth :: "'a props \<Rightarrow> real" where
  "halfContainerWidth p = containerWidth p / 2"

definition halfItemWidth :: "'a props \<Rightarrow> real" where
  "halfItemWidth p = itemWidth p / 2"

definition getItemTotalMarginBothSide :: "'a props \<Rightarrow> real" where
  "getItemTotalMarginBothSide p =
     (let compensatorOfSeparatorByScaleEffect = (1 - inActiveScale p) * itemWidth p
      in separatorWidth p - compensatorOfSeparatorByScaleEffect / 2)"

definition itemTotalMarginBothSide :: "'a props \<Rightarrow> real" where
  "itemTotalMarginBothSide p = getItemTotalMarginBothSide p"

text \<open>\<open>data ? data.length : 0\<close>\<close>

definition dataLength :: "'a props \<Rightarrow> int" where
  "dataLength p = (case data p of None \<Rightarrow> 0 | Some xs \<Rightarrow> int (length xs))"

definition isLastItem :: "'a props \<Rightarrow> int \<Rightarrow> bool" where
  "isLastItem p index = (index = dataLength p - 1)"

definition isFirstItem :: "int \<Rightarrow> bool" where
  "isFirstItem index = (index = 0)"

definition getItemOffset :: "'a props \<Rightarrow> int \<Rightarrow> real" where
  "getItemOffset p index =
     real_of_int index * (itemWidth p + itemTotalMarginBothSide p) -
     (halfContainerWidth p - halfItemWidth p)"

definition getAnimatedOffset :: "'a props \<Rightarrow> int \<Rightarrow> real" where
  "getAnimatedOffset p index =
     (if isFirstItem index then halfItemWidth p
      else if isLastItem p index then containerWidth p - halfItemWidth p
      else halfContainerWidth p)"

definition getMidPontInterpolate :: "'a props \<Rightarrow> int \<Rightarrow> real \<Rightarrow> real" where
  "getMidPontInterpolate p index animatedOffset =
     real_of_int index * (itemWidth p + itemTotalMarginBothSide p) +
     halfItemWidth p - animatedOffset"

definition getStartPontInterpolate :: "'a props \<Rightarrow> int \<Rightarrow> real \<Rightarrow> real" where
  "getStartPontInterpolate p index midPoint =
     (if index = 1 then 0
      else if isLastItem p index then
        real_of_int (dataLength p - 2) * (itemWidth p + itemTotalMarginBothSide p) +
        halfItemWidth p - halfContainerWidth p
      else midPoint - itemWidth p - itemTotalMarginBothSide p)"

definition getEndPointInterpolate :: "'a props \<Rightarrow> int \<Rightarrow> real \<Rightarrow> real" where
  "getEndPointInterpolate p index midPoint =
     (if isFirstItem index then
        itemWidth p + itemTotalMarginBothSide p + halfItemWidth p - halfContainerWidth p
      else if index = dataLength p - 2 then
        real_of_int (dataLength p - 1) * (itemWidth p + itemTotalMarginBothSide p) +
        itemWidth p - containerWidth p
      else midPoint + itemWidth p + itemTotalMarginBothSide p)"

text \<open>
  The style object returned by \<open>getItemMarginStyle\<close> has one of the keys \<open>marginLeft\<close>,
  \<open>marginRight\<close>, \<open>marginHorizontal\<close>; an absent key is \<open>None\<close>.
\<close>

record itemMarginStyle =
  marginLeft :: "real option"
  marginRight :: "real option"
  marginHorizontal :: "real option"

definition getItemMarginStyle :: "'a props \<Rightarrow> int \<Rightarrow> itemMarginStyle" where
  "getItemMarginStyle p index =
     (let marginSingleItemSide = itemTotalMarginBothSide p / 2
      in if isFirstItem index then
           (if inverted p
            then \<lparr>marginLeft = Some (marginSingleItemSide / 2), marginRight = None,
                  marginHorizontal = None\<rparr>
            else \<lparr>marginLeft = None, marginRight = Some (marginSingleItemSide / 2),
                  marginHorizontal = None\<rparr>)
         else if isLastItem p index then
           (if inverted p
            then \<lparr>marginLeft = None, marginRight = Some (marginSingleItemSide / 2),
                  marginHorizontal = None\<rparr>
            else \<lparr>marginLeft = Some (marginSingleItemSide / 2), marginRight = None,
                  marginHorizontal = None\<rparr>)
         else \<lparr>marginLeft = None, marginRight = None,
                marginHorizontal = Some marginSingleItemSide\<rparr>)"

subsection \<open>The item view\<close>

text \<open>
  Modelled from the spec: \<open>interpolate\<close> and \<open>Extrapolate.CLAMP\<close> are imported from
  react-native-reanimated and are not part of the source. Section 4.2 of the spec describes
  the call that \<open>Item\<close> makes: piecewise-linear interpolation over the ordered triple of
  breakpoints, mapping them to the triple of output values, clamped to the outer output
  values outside the range of the breakpoints.
\<close>

definition interpolate :: "real \<Rightarrow> real \<times> real \<times> real \<Rightarrow> real \<times> real \<times> real \<Rightarrow> real" where
  "interpolate x inputRange outputRange =
     (case inputRange of (x0, x1, x2) \<Rightarrow>
      case outputRange of (y0, y1, y2) \<Rightarrow>
        if x \<le> x0 then y0
        else if x2 \<le> x then y2
        else if x \<le> x1 then y0 + (x - x0) / (x1 - x0) * (y1 - y0)
        else y1 + (x - x1) / (x2 - x1) * (y2 - y1))"

text \<open>
  The style of the view that \<open>Item\<close> returns. Its style array ends with the margin style
  and the animated style, so the scale and the opacity of the animated style are the
  rendered ones. The children and the caller's \<open>itemContainerStyle\<close> are passed through
  and not modelled.
\<close>

record itemStyle =
  width :: real
  margin :: itemMarginStyle
  scale :: real
  opacity :: real

definition Item ::
  "real \<Rightarrow> real \<Rightarrow> real \<Rightarrow> real \<Rightarrow> real \<Rightarrow> real \<Rightarrow> itemMarginStyle \<Rightarrow> itemStyle" where
  "Item scroll startPoint midPoint endPoint inActiveScale' itemWidth' itemMarginStyle' =
     (let xOffset =
        interpolate scroll (startPoint, midPoint, endPoint)
          (inActiveScale', 1, inActiveScale')
      in \<lparr>width = itemWidth', margin = itemMarginStyle', scale = xOffset,
          opacity = xOffset\<rparr>)"

text \<open>\<open>scroll\<close> is the value of the \<open>scroll\<close> state in the render that draws the item.\<close>

definition renderItemContainer :: "'a props \<Rightarrow> real \<Rightarrow> int \<Rightarrow> itemStyle" where
  "renderItemContainer p scroll index =
     (let animatedOffset = getAnimatedOffset p index;
          midPoint = getMidPontInterpolate p index animatedOffset;
          startPoint = getStartPontInterpolate p index midPoint;
          endPoint = getEndPointInterpolate p index midPoint;
          itemMarginStyle' = getItemMarginStyle p index
      in Item scroll startPoint midPoint endPoint (inActiveScale p) (itemWidth p)
           itemMarginStyle')"

subsection \<open>Scroll state and events\<close>

text \<open>
  The calls the component makes to its environment, in the order it makes them: the three
  callback props and \<open>scrollToOffset({offset, animated})\<close> of the list. The first argument
  of \<open>onScrollEnd\<close> is \<open>data[index]\<close>, which is \<open>undefined\<close> (\<open>None\<close>) out of range.
\<close>

datatype 'a call =
  CallOnScrollEnd "'a option" int
  | CallOnScrollBeginDrag
  | CallOnScrollEndDrag
  | CallScrollToOffset real bool

datatype js_error = TypeError

text \<open>
  The refs and the state of the component. \<open>scrollViewRef\<close> says whether
  \<open>scrollViewRef.current\<close> is set. \<open>timers\<close> holds the callbacks handed to
  \<open>setTimeout\<close> that have not run yet, oldest first, each as the \<open>index\<close> its closure
  captured. \<open>calls\<close> is the log of the calls made so far.
\<close>

record 'a carousel =
  currentIndexRef :: int
  scrollXRef :: real
  scrollXBeginRef :: real
  scrollViewRef :: bool
  scrollState :: real
  timers :: "int list"
  calls :: "'a call list"

text \<open>
  The state once the first render is committed: the refs hold their initial values and the
  list is attached to \<open>scrollViewRef\<close>.
\<close>

definition mount :: "'a props \<Rightarrow> 'a carousel" where
  "mount p =
     \<lparr>currentIndexRef = initialIndex p, scrollXRef = 0, scrollXBeginRef = 0,
      scrollViewRef = True, scrollState = 0, timers = [], calls = []\<rparr>"

text \<open>\<open>xs[i]\<close> of JavaScript.\<close>

definition at_index :: "'a list \<Rightarrow> int \<Rightarrow> 'a option" where
  "at_index xs i = (if 0 \<le> i \<and> i < int (length xs) then Some (xs ! nat i) else None)"

text \<open>
  \<open>scrollToIndex\<close>. Reading \<open>data[index]\<close> of a \<open>null\<close> data raises a TypeError; the
  argument is evaluated only when the callback is set.
\<close>

definition scrollToIndex :: "'a props \<Rightarrow> int \<Rightarrow> 'a carousel \<Rightarrow> js_error + 'a carousel" where
  "scrollToIndex p index st =
     (if index < 0 \<or> index \<ge> dataLength p then Inr st
      else
        case (if onScrollEnd p then
                (case data p of
                   None \<Rightarrow> Inl TypeError
                 | Some xs \<Rightarrow>
                     Inr (st\<lparr>calls := calls st @ [CallOnScrollEnd (at_index xs index) index]\<rparr>))
              else Inr st) of
          Inl e \<Rightarrow> Inl e
        | Inr st1 \<Rightarrow>
            Inr (st1\<lparr>currentIndexRef := index, timers := timers st1 @ [index]\<rparr>))"

text \<open>The callback of the \<open>setTimeout\<close> in \<open>scrollToIndex\<close>, for the captured \<open>index\<close>.\<close>

definition runTimer :: "'a props \<Rightarrow> int \<Rightarrow> 'a carousel \<Rightarrow> 'a carousel" where
  "runTimer p index st =
     (if scrollViewRef st
      then st\<lparr>calls := calls st @ [CallScrollToOffset (getItemOffset p index) True]\<rparr>
      else st)"

text \<open>One turn of the timer queue: the oldest pending callback runs.\<close>

definition tick :: "'a props \<Rightarrow> 'a carousel \<Rightarrow> 'a carousel" where
  "tick p st =
     (case timers st of
        [] \<Rightarrow> st
      | index # rest \<Rightarrow> runTimer p index (st\<lparr>timers := rest\<rparr>))"

text \<open>The \<open>onScroll\<close> handler of the list, for the event's \<open>contentOffset.x\<close>.\<close>

definition onScroll :: "real \<Rightarrow> 'a carousel \<Rightarrow> 'a carousel" where
  "onScroll x st = st\<lparr>scrollState := x, scrollXRef := x\<rparr>"

definition handleOnScrollBeginDrag :: "'a props \<Rightarrow> 'a carousel \<Rightarrow> 'a carousel" where
  "handleOnScrollBeginDrag p st =
     (let st1 = (if onScrollBeginDrag p
                 then st\<lparr>calls := calls st @ [CallOnScrollBeginDrag]\<rparr> else st)
      in st1\<lparr>scrollXBeginRef := scrollXRef st1\<rparr>)"

definition handleOnScrollEndDrag :: "'a props \<Rightarrow> 'a carousel \<Rightarrow> js_error + 'a carousel" where
  "handleOnScrollEndDrag p st =
     (let st1 = (if onScrollEndDrag p
                 then st\<lparr>calls := calls st @ [CallOnScrollEndDrag]\<rparr> else st)
      in if scrollXRef st1 < 0 then Inr st1
         else
           let scrollDistance = scrollXRef st1 - scrollXBeginRef st1;
               st2 = st1\<lparr>scrollXBeginRef := 0\<rparr>
           in if \<bar>scrollDistance\<bar> < minScrollDistance p
              then scrollToIndex p (currentIndexRef st2) st2
              else if scrollDistance < 0
              then scrollToIndex p (currentIndexRef st2 - 1) st2
              else scrollToIndex p (currentIndexRef st2 + 1) st2)"

subsection \<open>Binary64 arithmetic\<close>

text \<open>
  A JavaScript number is an IEEE 754 binary64 value, and every arithmetic operation
  returns the exact result rounded to the nearest binary64 value, ties to even. The
  definitions above leave the rounding out. The functions below are the offset functions
  again with every operation rounded, for statements that fix concrete numbers.
  \<open>binary64\<close> rounds a real to 53 significant bits; overflow, subnormal numbers, NaN
  and the sign of zero are not modelled. A props record given to these functions holds
  binary64 values.
\<close>

text \<open>The number of binary digits of a natural number.\<close>

fun bitLength :: "nat \<Rightarrow> nat" where
  "bitLength n = (if n = 0 then 0 else Suc (bitLength (n div 2)))"

declare bitLength.simps [simp del]

definition pow2 :: "int \<Rightarrow> real" where
  "pow2 e = (if 0 \<le> e then 2 ^ nat e else 1 / 2 ^ nat (- e))"

text \<open>The exponent \<open>e\<close> of a nonzero real \<open>x\<close>: \<open>2 ^ e \<le> \<bar>x\<bar> < 2 ^ (e + 1)\<close>.\<close>

definition exponent :: "real \<Rightarrow> int" where
  "exponent x =
     (if 1 \<le> \<bar>x\<bar> then int (bitLength (nat \<lfloor>\<bar>x\<bar>\<rfloor>)) - 1
      else - int (bitLength (nat (\<lceil>1 / \<bar>x\<bar>\<rceil> - 1))))"

definition roundTiesToEven :: "real \<Rightarrow> int" where
  "roundTiesToEven x =
     (let n = \<lfloor>x\<rfloor>; r = x - real_of_int n
      in if r < 1 / 2 then n
         else if 1 / 2 < r then n + 1
         else if even n then n else n + 1)"

definition binary64 :: "real \<Rightarrow> real" where
  "binary64 x =
     (if x = 0 then 0
      else let q = pow2 (exponent x - 52)
           in real_of_int (roundTiesToEven (x / q)) * q)"

text \<open>Lines 92, 93 and 158 to 168 of the source, each operation rounded.\<close>

definition halfContainerWidth64 :: "'a props \<Rightarrow> real" where
  "halfContainerWidth64 p = binary64 (containerWidth p / 2)"

definition halfItemWidth64 :: "'a props \<Rightarrow> real" where
  "halfItemWidth64 p = binary64 (itemWidth p / 2)"

definition getItemTotalMarginBothSide64 :: "'a props \<Rightarrow> real" where
  "getItemTotalMarginBothSide64 p =
     (let compensatorOfSeparatorByScaleEffect =
        binary64 (binary64 (1 - inActiveScale p) * itemWidth p)
      in binary64 (separatorWidth p - binary64 (compensatorOfSeparatorByScaleEffect / 2)))"

definition itemTotalMarginBothSide64 :: "'a props \<Rightarrow> real" where
  "itemTotalMarginBothSide64 p = getItemTotalMarginBothSide64 p"

definition getItemOffset64 :: "'a props \<Rightarrow> int \<Rightarrow> real" where
  "getItemOffset64 p index =
     binary64
       (binary64 (real_of_int index * binary64 (itemWidth p + itemTotalMarginBothSide64 p)) -
        binary64 (halfContainerWidth64 p - halfItemWidth64 p))"

subsection \<open>Concrete carousels\<close>

text \<open>
  The geometry example of the spec (container 300, items 270, separator 10, inactive scale
  0.8) over five items, mounted at item 2.
\<close>

definition spec_example :: "string props" where
  "spec_example =
     \<lparr>data = Some [''a'', ''b'', ''c'', ''d'', ''e''], containerWidth = 300, itemWidth = 270,
      separatorWidth = 10, minScrollDistance = 5, inActiveScale = 8 / 10,
      inActiveOpacity = 8 / 10, inverted = False, initialIndex = 2, onScrollEnd = True,
      onScrollBeginDrag = True, onScrollEndDrag = True\<rparr>"

text \<open>A drag that begins at offset 100 and is released at offset 80.\<close>

definition dragged :: "string carousel" where
  "dragged = onScroll 80 (handleOnScrollBeginDrag spec_example (onScroll 100 (mount spec_example)))"

text \<open>A drag from offset 0 that is released while the list is overscrolled to -12.\<close>

definition overscrolled :: "string carousel" where
  "overscrolled = onScroll (- 12) (handleOnScrollBeginDrag spec_example (mount spec_example))"

text \<open>
  Five items of width 100 in a container of width 300, so that three are visible at once,
  with a separator of 25 and an inactive scale of one half: the total margin is 0.
\<close>

definition three_visible :: "string props" where
  "three_visible =
     \<lparr>data = Some [''a'', ''b'', ''c'', ''d'', ''e''], containerWidth = 300, itemWidth = 100,
      separatorWidth = 25, minScrollDistance = 5, inActiveScale = 1 / 2,
      inActiveOpacity = 8 / 10, inverted = False, initialIndex = 0, onScrollEnd = True,
      onScrollBeginDrag = True, onScrollEndDrag = True\<rparr>"

text \<open>The example of the spec with a separator of -300: neighbouring items overlap.\<close>

definition overlapping :: "string props" where
  "overlapping = spec_example\<lparr>separatorWidth := - 300\<rparr>"

text \<open>
  The example of the spec as the program receives it: the literal \<open>0.8\<close> denotes the
  binary64 value nearest to 8/10; the other numbers of the example are integers.
\<close>

definition spec_example64 :: "string props" where
  "spec_example64 = spec_example\<lparr>inActiveScale := binary64 (8 / 10)\<rparr>"

section \<open>Properties\<close>

lemmas geometry_defs =
  getItemOffset_def itemTotalMarginBothSide_def getItemTotalMarginBothSide_def
  halfContainerWidth_def halfItemWidth_def getAnimatedOffset_def getMidPontInterpolate_def
  getStartPontInterpolate_def getEndPointInterpolate_def isFirstItem_def isLastItem_def
  dataLength_def

subsection \<open>Binary64 rounding\<close>

text \<open>
  \<open>binary64 x\<close> is a multiple of \<open>2 ^ (exponent x - 52)\<close> with a significand between
  \<open>2 ^ 52\<close> and \<open>2 ^ 53\<close>, at most half of that unit away from \<open>x\<close>.
\<close>

lemma bitLength_1: "bitLength (Suc 0) = 1"
  by (simp add: bitLength.simps [of "Suc 0"] bitLength.simps [of 0])

lemma real_bounds:
  fixes n k j :: nat
  assumes "2 ^ j \<le> n \<and> n < 2 ^ k"
  shows "(2::real) ^ j \<le> real n" and "real n + 1 \<le> 2 ^ k"
proof -
  from assms have "real (2 ^ j) \<le> real n"
    by (simp only: of_nat_le_iff)
  then show "(2::real) ^ j \<le> real n"
    by simp
  from assms have "Suc n \<le> 2 ^ k"
    by simp
  then have "real (Suc n) \<le> real (2 ^ k)"
    by (simp only: of_nat_le_iff)
  then show "real n + 1 \<le> 2 ^ k"
    by simp
qed

lemma bitLength_bounds:
  "0 < n \<Longrightarrow> 2 ^ (bitLength n - 1) \<le> n \<and> n < 2 ^ bitLength n"
proof (induction n rule: bitLength.induct)
  case (1 n)
  show ?case
  proof (cases "n div 2 = 0")
    case True
    with \<open>0 < n\<close> have "n = 1"
      by (simp add: div_eq_0_iff)
    then show ?thesis
      by (simp add: bitLength_1)
  next
    case False
    with "1.IH" \<open>0 < n\<close>
    have ih: "2 ^ (bitLength (n div 2) - 1) \<le> n div 2" "n div 2 < 2 ^ bitLength (n div 2)"
      by simp_all
    from False have pos: "0 < bitLength (n div 2)"
      by (simp add: bitLength.simps [of "n div 2"])
    have eq: "bitLength n = Suc (bitLength (n div 2))"
      using \<open>0 < n\<close> by (simp add: bitLength.simps [of n])
    from pos have "(2::nat) ^ bitLength (n div 2) = 2 * 2 ^ (bitLength (n div 2) - 1)"
      by (cases "bitLength (n div 2)") simp_all
    with ih have "2 ^ bitLength (n div 2) \<le> n" "n < 2 * 2 ^ bitLength (n div 2)"
      by arith+
    then show ?thesis
      unfolding eq by simp
  qed
qed

lemma pow2_pos: "0 < pow2 e"
  by (simp add: pow2_def)

lemma pow2_powr: "pow2 e = 2 powr real_of_int e"
  by (cases "0 \<le> e") (simp_all add: pow2_def powr_realpow [symmetric] powr_minus_divide)

lemma pow2_Suc: "pow2 (e + 1) = 2 * pow2 e"
  by (simp add: pow2_powr powr_add)

lemma exponent_bounds:
  assumes "x \<noteq> 0"
  shows "pow2 (exponent x) \<le> \<bar>x\<bar> \<and> \<bar>x\<bar> < pow2 (exponent x + 1)"
proof (cases "1 \<le> \<bar>x\<bar>")
  case True
  define n where "n = nat \<lfloor>\<bar>x\<bar>\<rfloor>"
  from True have n: "0 < n" "real n \<le> \<bar>x\<bar>" "\<bar>x\<bar> < real n + 1"
    unfolding n_def by linarith+
  note b = real_bounds [OF bitLength_bounds [OF n(1)]]
  from n(1) have blpos: "0 < bitLength n"
    by (simp add: bitLength.simps [of n])
  have e: "exponent x = int (bitLength n) - 1"
    using True by (simp add: exponent_def n_def)
  from blpos have p1: "pow2 (exponent x) = 2 ^ (bitLength n - 1)"
    unfolding e by (simp add: pow2_def nat_diff_distrib')
  have p2: "pow2 (exponent x + 1) = 2 ^ bitLength n"
    unfolding e by (simp add: pow2_def)
  from n b show ?thesis
    unfolding p1 p2 by (intro conjI; linarith)
next
  case False
  define y where "y = 1 / \<bar>x\<bar>"
  from False assms have y: "1 < y" "0 < \<bar>x\<bar>" "\<bar>x\<bar> = 1 / y"
    by (simp_all add: y_def)
  define n where "n = nat (\<lceil>y\<rceil> - 1)"
  from y(1) have n: "0 < n" "real n < y" "y \<le> real n + 1"
    unfolding n_def by linarith+
  note b = real_bounds [OF bitLength_bounds [OF n(1)]]
  from n(1) have blpos: "0 < bitLength n"
    by (simp add: bitLength.simps [of n])
  have e: "exponent x = - int (bitLength n)"
    using False by (simp add: exponent_def n_def y_def)
  have p1: "pow2 (exponent x) = 1 / 2 ^ bitLength n"
    unfolding e by (simp add: pow2_def)
  from blpos have p2: "pow2 (exponent x + 1) = 1 / 2 ^ (bitLength n - 1)"
    unfolding e by (auto simp add: pow2_def nat_diff_distrib' not_le)
  from n b have "y \<le> 2 ^ bitLength n" "2 ^ (bitLength n - 1) < y"
    by linarith+
  with y(1) have "1 / 2 ^ bitLength n \<le> 1 / y" "1 / y < 1 / 2 ^ (bitLength n - 1)"
    by (simp_all add: frac_le frac_less2)
  then show ?thesis
    unfolding p1 p2 y(3) by simp
qed

lemma roundTiesToEven_error: "\<bar>real_of_int (roundTiesToEven t) - t\<bar> \<le> 1 / 2"
  by (simp add: roundTiesToEven_def Let_def)

lemma binary64_error:
  "\<bar>binary64 x - x\<bar> \<le> pow2 (exponent x - 52) / 2"
proof (cases "x = 0")
  case True
  then show ?thesis
    by (simp add: binary64_def less_imp_le [OF pow2_pos])
next
  case False
  define q where "q = pow2 (exponent x - 52)"
  have q: "0 < q"
    by (simp add: q_def pow2_pos)
  from q have "real_of_int (roundTiesToEven (x / q)) * q - x =
      (real_of_int (roundTiesToEven (x / q)) - x / q) * q"
    by (simp add: left_diff_distrib)
  with False q have "\<bar>binary64 x - x\<bar> = \<bar>real_of_int (roundTiesToEven (x / q)) - x / q\<bar> * q"
    by (simp add: binary64_def Let_def q_def [symmetric] abs_mult)
  also have "\<dots> \<le> 1 / 2 * q"
    using q roundTiesToEven_error [of "x / q"] by (intro mult_right_mono) simp_all
  finally show ?thesis
    by (simp add: q_def)
qed

lemma roundTiesToEven_between: "\<lfloor>t\<rfloor> \<le> roundTiesToEven t \<and> roundTiesToEven t \<le> \<lceil>t\<rceil>"
  by (simp add: roundTiesToEven_def Let_def) linarith

lemma pow2_52: "pow2 e = 2 ^ 52 * pow2 (e - 52)"
  by (simp add: pow2_powr powr_diff)

lemma binary64_significand:
  assumes "x \<noteq> 0"
  shows "\<exists>m. binary64 x = real_of_int m * pow2 (exponent x - 52) \<and>
           2 ^ 52 \<le> \<bar>m\<bar> \<and> \<bar>m\<bar> \<le> 2 ^ 53"
proof -
  define q where "q = pow2 (exponent x - 52)"
  define t where "t = x / q"
  have q: "0 < q"
    by (simp add: q_def pow2_pos)
  from exponent_bounds [OF assms]
  have "2 ^ 52 * q \<le> \<bar>x\<bar>" "\<bar>x\<bar> < 2 ^ 53 * q"
    unfolding q_def using pow2_52 [of "exponent x"] pow2_52 [of "exponent x + 1"] pow2_Suc [of "exponent x - 52"]
    by (simp_all add: algebra_simps)
  with q have t: "2 ^ 52 \<le> \<bar>t\<bar>" "\<bar>t\<bar> < 2 ^ 53"
    by (simp_all add: t_def field_simps)
  have "2 ^ 52 \<le> \<bar>roundTiesToEven t\<bar> \<and> \<bar>roundTiesToEven t\<bar> \<le> 2 ^ 53"
  proof (cases "0 \<le> t")
    case True
    with t have "real_of_int (2 ^ 52) \<le> t" "t \<le> real_of_int (2 ^ 53)"
      by simp_all
    then have "2 ^ 52 \<le> \<lfloor>t\<rfloor>" "\<lceil>t\<rceil> \<le> 2 ^ 53"
      by (simp_all only: le_floor_iff ceiling_le_iff)
    with roundTiesToEven_between [of t] show ?thesis
      by (simp; linarith)
  next
    case False
    with t have "t \<le> real_of_int (- (2 ^ 52))" "real_of_int (- (2 ^ 53)) \<le> t"
      by simp_all
    then have "\<lceil>t\<rceil> \<le> - (2 ^ 52)" "- (2 ^ 53) \<le> \<lfloor>t\<rfloor>"
      by (simp_all only: le_floor_iff ceiling_le_iff)
    with roundTiesToEven_between [of t] show ?thesis
      by (simp; linarith)
  qed
  moreover from assms have "binary64 x = real_of_int (roundTiesToEven t) * q"
    by (simp add: binary64_def Let_def q_def t_def)
  ultimately show ?thesis
    unfolding q_def by blast
qed

lemmas binary64_eval =
  binary64_def exponent_def pow2_def roundTiesToEven_def Let_def bitLength.simps

text \<open>The operations of the example of the spec, one by one.\<close>

lemma binary64_literal: "binary64 (8 / 10) = 3602879701896397 / 2 ^ 52"
  by (simp add: binary64_eval)

lemma margin_steps:
  "binary64 (1 - 3602879701896397 / 2 ^ 52) = 900719925474099 / 2 ^ 52"
  "binary64 (900719925474099 / 2 ^ 52 * 270) = 7599824371187710 / 2 ^ 47"
  "binary64 (7599824371187710 / 2 ^ 47 / 2) = 7599824371187710 / 2 ^ 48"
  "binary64 (10 - 7599824371187710 / 2 ^ 48) = - 17 + 1 / 2 ^ 47"
  by (simp_all add: binary64_eval)

lemma offset_steps:
  "binary64 (270 + (- 17 + 1 / 2 ^ 47)) = 253"
  "binary64 (1 * 253) = 253"
  "binary64 (300 / 2) = 150"
  "binary64 (270 / 2) = 135"
  "binary64 (150 - 135) = 15"
  "binary64 (253 - 15) = 238"
  by (simp_all add: binary64_eval)

subsection \<open>Item offsets\<close>

text \<open>
  C1, as stated: for a container of 300, items of 270, a separator of 10 and an inactive
  scale of 0.8 the total margin is -17. The program computes \<open>(1 - 0.8) * 270\<close> in
  binary64, which is 53.999999999999986, so its total margin is \<open>- 17 + 2 ^ - 47\<close>, printed
  as -16.999999999999993.
\<close>

theorem itemTotalMargin_counterexample:
  "itemTotalMarginBothSide64 spec_example64 \<noteq> - 17"
proof -
  have "inActiveScale spec_example64 = binary64 (8 / 10)" "itemWidth spec_example64 = 270"
    "separatorWidth spec_example64 = 10"
    by (simp_all add: spec_example64_def spec_example_def)
  then have "itemTotalMarginBothSide64 spec_example64 = - 17 + 1 / 2 ^ 47"
    by (simp only: itemTotalMarginBothSide64_def getItemTotalMarginBothSide64_def Let_def
        binary64_literal margin_steps)
  then show ?thesis
    by simp
qed

text \<open>
  C1, amended: the offset of an item is \<open>index * (itemWidth + totalMargin) -
  (halfContainerWidth - halfItemWidth)\<close> with \<open>totalMargin = separatorWidth - (1 -
  inActiveScale) * itemWidth / 2\<close>, every operation rounded to binary64 in the order of
  the source; for a container of 300, items of 270, a separator of 10 and an inactive scale
  of 0.8 the offset of item 1 is 238 and the total margin is \<open>- 17 + 2 ^ - 47\<close>.
\<close>

theorem getItemOffset64_formula:
  "getItemOffset64 p index =
     binary64
       (binary64
          (real_of_int index *
           binary64
             (itemWidth p +
              binary64
                (separatorWidth p -
                 binary64 (binary64 (binary64 (1 - inActiveScale p) * itemWidth p) / 2)))) -
        binary64 (binary64 (containerWidth p / 2) - binary64 (itemWidth p / 2)))
   \<and> (containerWidth p = 300 \<and> itemWidth p = 270 \<and> separatorWidth p = 10 \<and>
        inActiveScale p = binary64 (8 / 10)
      \<longrightarrow> itemTotalMarginBothSide64 p = - 17 + 1 / 2 ^ 47 \<and> getItemOffset64 p 1 = 238)"
proof -
  have formula: "getItemOffset64 p index =
     binary64
       (binary64
          (real_of_int index *
           binary64
             (itemWidth p +
              binary64
                (separatorWidth p -
                 binary64 (binary64 (binary64 (1 - inActiveScale p) * itemWidth p) / 2)))) -
        binary64 (binary64 (containerWidth p / 2) - binary64 (itemWidth p / 2)))" for index
    by (simp only: getItemOffset64_def itemTotalMarginBothSide64_def
        getItemTotalMarginBothSide64_def halfContainerWidth64_def halfItemWidth64_def Let_def)
  have "itemTotalMarginBothSide64 p = - 17 + 1 / 2 ^ 47 \<and> getItemOffset64 p 1 = 238"
    if "containerWidth p = 300 \<and> itemWidth p = 270 \<and> separatorWidth p = 10 \<and>
        inActiveScale p = binary64 (8 / 10)"
  proof -
    from that have m: "itemTotalMarginBothSide64 p = - 17 + 1 / 2 ^ 47"
      by (simp only: itemTotalMarginBothSide64_def getItemTotalMarginBothSide64_def Let_def
          binary64_literal margin_steps)
    from that have "getItemOffset64 p 1 = 238"
      unfolding formula
      by (simp only: binary64_literal margin_steps offset_steps of_int_1)
    with m show ?thesis
      by simp
  qed
  with formula show ?thesis
    by blast
qed

text \<open>C1 amended, at the example of the spec.\<close>

theorem getItemOffset64_formula_witness:
  "itemTotalMarginBothSide64 spec_example64 = - 2392537302040575 / 140737488355328 \<and>
   getItemOffset64 spec_example64 1 = 238"
  using getItemOffset64_formula [of spec_example64 1]
  by (simp add: spec_example64_def spec_example_def)

text \<open>
  C9. When \<open>itemWidth + totalMargin\<close> is positive, the offset is strictly increasing in
  the index: \<open>i < j\<close> gives \<open>offset i < offset j\<close> (for all indices, so also for those
  of the data).
\<close>

theorem getItemOffset_strict_mono:
  assumes "0 < itemWidth p + itemTotalMarginBothSide p" and "i < j"
  shows "getItemOffset p i < getItemOffset p j"
proof -
  from \<open>i < j\<close> have "real_of_int i < real_of_int j"
    by simp
  then
  have "real_of_int i * (itemWidth p + itemTotalMarginBothSide p)
      < real_of_int j * (itemWidth p + itemTotalMarginBothSide p)"
    using assms(1) by (rule mult_strict_right_mono)
  then show ?thesis
    by (simp add: getItemOffset_def)
qed

text \<open>C9 at the example of the spec: the step is 253, and item 1 lies before item 4.\<close>

theorem getItemOffset_strict_mono_witness:
  "0 < itemWidth spec_example + itemTotalMarginBothSide spec_example \<and>
   getItemOffset spec_example 1 < getItemOffset spec_example 4"
proof -
  have step: "0 < itemWidth spec_example + itemTotalMarginBothSide spec_example"
    by (simp add: spec_example_def itemTotalMarginBothSide_def
        getItemTotalMarginBothSide_def)
  from getItemOffset_strict_mono [OF step, of 1 4] step show ?thesis
    by simp
qed

subsection \<open>Breakpoints\<close>

text \<open>
  C6, as stated: for every configuration and every interior index (not the first, not the
  last, not 1, not \<open>dataLength - 2\<close>) the breakpoints satisfy \<open>start \<le> mid \<le> end\<close>.
  This fails for the overlapping items (separator -300, so \<open>itemWidth + totalMargin\<close> is
  -57): at index 2 of 5 the breakpoints are start = -72, mid = -129 and end = -186.
\<close>

theorem breakpoints_ordered_counterexample:
  "\<not> (getStartPontInterpolate overlapping 2
          (getMidPontInterpolate overlapping 2 (getAnimatedOffset overlapping 2))
        \<le> getMidPontInterpolate overlapping 2 (getAnimatedOffset overlapping 2) \<and>
       getMidPontInterpolate overlapping 2 (getAnimatedOffset overlapping 2)
        \<le> getEndPointInterpolate overlapping 2
            (getMidPontInterpolate overlapping 2 (getAnimatedOffset overlapping 2)))"
  by (simp add: overlapping_def spec_example_def geometry_defs)

text \<open>
  C6, amended: for an interior index (not 0, not \<open>dataLength - 1\<close>, not 1, not
  \<open>dataLength - 2\<close>) the breakpoints are \<open>mid - step\<close>, \<open>mid\<close> and \<open>mid + step\<close> with
  \<open>step = itemWidth + totalMargin\<close>, so \<open>start \<le> mid \<le> end\<close> holds exactly when
  \<open>itemWidth + totalMargin\<close> is not negative.
\<close>

theorem breakpoints_ordered_iff:
  assumes "index \<noteq> 0" and "index \<noteq> dataLength p - 1"
    and "index \<noteq> 1" and "index \<noteq> dataLength p - 2"
  shows "(getStartPontInterpolate p index (getMidPontInterpolate p index (getAnimatedOffset p index))
            \<le> getMidPontInterpolate p index (getAnimatedOffset p index) \<and>
          getMidPontInterpolate p index (getAnimatedOffset p index)
            \<le> getEndPointInterpolate p index
                 (getMidPontInterpolate p index (getAnimatedOffset p index)))
         = (0 \<le> itemWidth p + itemTotalMarginBothSide p)"
proof -
  let ?mid = "getMidPontInterpolate p index (getAnimatedOffset p index)"
  from assms have start: "getStartPontInterpolate p index ?mid =
      ?mid - itemWidth p - itemTotalMarginBothSide p"
    by (simp add: getStartPontInterpolate_def isLastItem_def)
  from assms have end': "getEndPointInterpolate p index ?mid =
      ?mid + itemWidth p + itemTotalMarginBothSide p"
    by (simp add: getEndPointInterpolate_def isFirstItem_def)
  show ?thesis
    unfolding start end' by auto
qed

text \<open>
  C6 amended, at item 2 of the example of the spec, where the step is 253: the breakpoints
  are 238, 491 and 744.
\<close>

theorem breakpoints_ordered_witness:
  "getStartPontInterpolate spec_example 2
       (getMidPontInterpolate spec_example 2 (getAnimatedOffset spec_example 2)) = 238 \<and>
   getMidPontInterpolate spec_example 2 (getAnimatedOffset spec_example 2) = 491 \<and>
   getEndPointInterpolate spec_example 2
       (getMidPontInterpolate spec_example 2 (getAnimatedOffset spec_example 2)) = 744 \<and>
   (getStartPontInterpolate spec_example 2
       (getMidPontInterpolate spec_example 2 (getAnimatedOffset spec_example 2))
     \<le> getMidPontInterpolate spec_example 2 (getAnimatedOffset spec_example 2) \<and>
    getMidPontInterpolate spec_example 2 (getAnimatedOffset spec_example 2)
     \<le> getEndPointInterpolate spec_example 2
         (getMidPontInterpolate spec_example 2 (getAnimatedOffset spec_example 2)))"
  using breakpoints_ordered_iff [of 2 spec_example]
  by (simp add: spec_example_def geometry_defs)

subsection \<open>Margins\<close>

text \<open>
  C10. With at least two items, every item that is neither the first nor the last gets a
  horizontal margin of \<open>totalMargin / 2\<close> (on each side), while the first and the last
  item get a margin of \<open>totalMargin / 4\<close> on one side only: the first item on the right
  and the last item on the left, and the other way round when \<open>inverted\<close> is set.
\<close>

theorem getItemMarginStyle_sides:
  assumes "2 \<le> dataLength p"
  shows "(index \<noteq> 0 \<and> index \<noteq> dataLength p - 1 \<longrightarrow>
          getItemMarginStyle p index =
            \<lparr>marginLeft = None, marginRight = None,
             marginHorizontal = Some (itemTotalMarginBothSide p / 2)\<rparr>)
     \<and> getItemMarginStyle p 0 =
         (if inverted p
          then \<lparr>marginLeft = Some (itemTotalMarginBothSide p / 4), marginRight = None,
                marginHorizontal = None\<rparr>
          else \<lparr>marginLeft = None, marginRight = Some (itemTotalMarginBothSide p / 4),
                marginHorizontal = None\<rparr>)
     \<and> getItemMarginStyle p (dataLength p - 1) =
         (if inverted p
          then \<lparr>marginLeft = None, marginRight = Some (itemTotalMarginBothSide p / 4),
                marginHorizontal = None\<rparr>
          else \<lparr>marginLeft = Some (itemTotalMarginBothSide p / 4), marginRight = None,
                marginHorizontal = None\<rparr>)"
  using assms by (simp add: getItemMarginStyle_def isFirstItem_def isLastItem_def Let_def)

text \<open>C10 at the example of the spec (total margin -17), as it is and inverted.\<close>

theorem getItemMarginStyle_sides_witness:
  "2 \<le> dataLength spec_example \<and>
   getItemMarginStyle spec_example 2 =
     \<lparr>marginLeft = None, marginRight = None, marginHorizontal = Some (- 17 / 2)\<rparr> \<and>
   getItemMarginStyle spec_example 0 =
     \<lparr>marginLeft = None, marginRight = Some (- 17 / 4), marginHorizontal = None\<rparr> \<and>
   getItemMarginStyle spec_example 4 =
     \<lparr>marginLeft = Some (- 17 / 4), marginRight = None, marginHorizontal = None\<rparr> \<and>
   getItemMarginStyle (spec_example\<lparr>inverted := True\<rparr>) 0 =
     \<lparr>marginLeft = Some (- 17 / 4), marginRight = None, marginHorizontal = None\<rparr> \<and>
   getItemMarginStyle (spec_example\<lparr>inverted := True\<rparr>) 4 =
     \<lparr>marginLeft = None, marginRight = Some (- 17 / 4), marginHorizontal = None\<rparr>"
proof -
  have len: "dataLength spec_example = 5" "dataLength (spec_example\<lparr>inverted := True\<rparr>) = 5"
    by (simp_all add: spec_example_def dataLength_def)
  have m: "itemTotalMarginBothSide spec_example = - 17"
    "itemTotalMarginBothSide (spec_example\<lparr>inverted := True\<rparr>) = - 17"
    by (simp_all add: spec_example_def itemTotalMarginBothSide_def
        getItemTotalMarginBothSide_def)
  have inv: "\<not> inverted spec_example" "inverted (spec_example\<lparr>inverted := True\<rparr>)"
    by (simp_all add: spec_example_def)
  from getItemMarginStyle_sides [of spec_example 2]
    getItemMarginStyle_sides [of "spec_example\<lparr>inverted := True\<rparr>" 2]
  show ?thesis
    by (simp add: len m inv)
qed

subsection \<open>The interpolated value\<close>

lemma scale_Item:
  "scale (Item x startPoint midPoint endPoint s w m) =
     interpolate x (startPoint, midPoint, endPoint) (s, 1, s)"
  by (simp add: Item_def Let_def)

lemma opacity_Item:
  "opacity (Item x startPoint midPoint endPoint s w m) =
     interpolate x (startPoint, midPoint, endPoint) (s, 1, s)"
  by (simp add: Item_def Let_def)

text \<open>
  C2, as stated: for every item's breakpoints and every inactive scale, the interpolated
  value is 1 at \<open>scrollOffset = mid\<close> and the inactive scale at every \<open>scrollOffset \<le>
  start\<close> or \<open>\<ge> end\<close>. The two requirements collide where \<open>mid \<le> start\<close>. For five
  items of width 100 in a container of width 300 the item at index 1 has start = mid = 0
  and the inactive scale is one half, so no value at offset 0 can meet both; the clamped
  interpolation yields the inactive scale there, not 1.
\<close>

theorem Item_value_counterexample:
  "getStartPontInterpolate three_visible 1
       (getMidPontInterpolate three_visible 1 (getAnimatedOffset three_visible 1)) =
     getMidPontInterpolate three_visible 1 (getAnimatedOffset three_visible 1)
   \<and> inActiveScale three_visible \<noteq> 1
   \<and> scale (renderItemContainer three_visible
        (getMidPontInterpolate three_visible 1 (getAnimatedOffset three_visible 1)) 1) \<noteq> 1"
  by (simp add: three_visible_def geometry_defs renderItemContainer_def Item_def
      interpolate_def Let_def)

text \<open>
  C2, amended: when the breakpoints are strictly ordered, \<open>start < mid < end\<close> (or the
  inactive scale is 1), the value that \<open>Item\<close> uses as its scale is exactly 1 at \<open>mid\<close>,
  exactly the inactive scale at every offset \<open>\<le> start\<close> or \<open>\<ge> end\<close>, and linear between
  \<open>start\<close> and \<open>mid\<close> and between \<open>mid\<close> and \<open>end\<close>.
\<close>

theorem Item_value_ordered:
  assumes "(startPoint < midPoint \<and> midPoint < endPoint) \<or> s = 1"
  shows "scale (Item midPoint startPoint midPoint endPoint s w m) = 1
    \<and> (x \<le> startPoint \<or> endPoint \<le> x \<longrightarrow>
         scale (Item x startPoint midPoint endPoint s w m) = s)
    \<and> (startPoint \<le> x \<and> x \<le> midPoint \<longrightarrow>
         scale (Item x startPoint midPoint endPoint s w m) =
           s + (x - startPoint) / (midPoint - startPoint) * (1 - s))
    \<and> (midPoint \<le> x \<and> x \<le> endPoint \<longrightarrow>
         scale (Item x startPoint midPoint endPoint s w m) =
           1 + (x - midPoint) / (endPoint - midPoint) * (s - 1))"
  using assms by (auto simp add: scale_Item interpolate_def)

text \<open>
  C2 amended, at the breakpoints 238, 491, 744 of item 2 of the example of the spec: the
  value at \<open>mid\<close>, at \<open>start\<close> and beyond \<open>end\<close>.
\<close>

theorem Item_value_ordered_witness:
  "scale (Item 491 238 491 744 (8 / 10) 270 (getItemMarginStyle spec_example 2)) = 1 \<and>
   scale (Item 238 238 491 744 (8 / 10) 270 (getItemMarginStyle spec_example 2)) = 8 / 10 \<and>
   scale (Item 800 238 491 744 (8 / 10) 270 (getItemMarginStyle spec_example 2)) = 8 / 10"
  using Item_value_ordered [of 238 491 744 "8 / 10" 270 "getItemMarginStyle spec_example 2" 238]
    Item_value_ordered [of 238 491 744 "8 / 10" 270 "getItemMarginStyle spec_example 2" 800]
  by simp

text \<open>
  C7. Two configurations that differ only in \<open>inActiveOpacity\<close> render every item the
  same at every scroll offset, in particular with the same scale and the same opacity; and
  the opacity of a rendered item always equals its scale.
\<close>

theorem inActiveOpacity_unused:
  assumes "p2 = p1\<lparr>inActiveOpacity := v\<rparr>"
  shows "renderItemContainer p2 scroll index = renderItemContainer p1 scroll index
     \<and> scale (renderItemContainer p2 scroll index) = scale (renderItemContainer p1 scroll index)
     \<and> opacity (renderItemContainer p2 scroll index) = opacity (renderItemContainer p1 scroll index)
     \<and> opacity (renderItemContainer p1 scroll index) = scale (renderItemContainer p1 scroll index)"
proof -
  from assms have same: "renderItemContainer p2 scroll index = renderItemContainer p1 scroll index"
    by (simp add: renderItemContainer_def geometry_defs getItemMarginStyle_def Let_def)
  have "opacity (renderItemContainer p1 scroll index) = scale (renderItemContainer p1 scroll index)"
    by (simp add: renderItemContainer_def Let_def scale_Item opacity_Item)
  with same show ?thesis
    by simp
qed

text \<open>C7 at item 2 of the example of the spec, with the inactive opacity set to 0.3.\<close>

theorem inActiveOpacity_unused_witness:
  "renderItemContainer (spec_example\<lparr>inActiveOpacity := 3 / 10\<rparr>) 300 2 =
     renderItemContainer spec_example 300 2 \<and>
   opacity (renderItemContainer (spec_example\<lparr>inActiveOpacity := 3 / 10\<rparr>) 300 2) =
     scale (renderItemContainer spec_example 300 2)"
  using inActiveOpacity_unused
    [where ?p1.0 = spec_example and ?p2.0 = "spec_example\<lparr>inActiveOpacity := 3 / 10\<rparr>"
       and v = "3 / 10" and scroll = 300 and index = 2]
  by simp

subsection \<open>Scrolling to an index\<close>

text \<open>
  C5. For an index outside \<open>[0, dataLength)\<close>, in particular -1 and \<open>dataLength\<close>,
  \<open>scrollToIndex\<close> returns normally with the state as it was: the current index, the log
  of calls (no \<open>onScrollEnd\<close>, no scroll command) and the pending timers are unchanged.
\<close>

theorem scrollToIndex_out_of_range:
  "(index < 0 \<or> dataLength p \<le> index \<longrightarrow> scrollToIndex p index st = Inr st)
   \<and> scrollToIndex p (- 1) st = Inr st
   \<and> scrollToIndex p (dataLength p) st = Inr st"
  by (auto simp add: scrollToIndex_def)

text \<open>C5 at the example of the spec (five items), for the indices -1, 5 and 7.\<close>

theorem scrollToIndex_out_of_range_witness:
  "scrollToIndex spec_example (- 1) dragged = Inr dragged \<and>
   scrollToIndex spec_example 5 dragged = Inr dragged \<and>
   scrollToIndex spec_example 7 dragged = Inr dragged"
proof -
  have len: "dataLength spec_example = 5"
    by (simp add: spec_example_def dataLength_def)
  from scrollToIndex_out_of_range [of 7 spec_example dragged] show ?thesis
    by (simp add: len)
qed

text \<open>
  C4. For a target in \<open>[0, dataLength)\<close>, \<open>scrollToIndex\<close> returns normally, having called
  \<open>onScrollEnd (data[target], target)\<close> (when the prop is set), set the current index to
  the target and queued one timer, without any scroll command so far. When that timer
  runs, on the next turn of the timer queue with the list attached, it issues
  \<open>scrollToOffset\<close> with the offset of the target, animated: the callback precedes the
  scroll command in the log of calls.
\<close>

theorem scrollToIndex_in_range:
  assumes "0 \<le> target" and "target < dataLength p"
  shows "\<exists>xs st'. data p = Some xs \<and> scrollToIndex p target st = Inr st' \<and>
     st' = st\<lparr>calls := calls st @
                   (if onScrollEnd p then [CallOnScrollEnd (Some (xs ! nat target)) target]
                    else []),
               currentIndexRef := target, timers := timers st @ [target]\<rparr> \<and>
     (timers st = [] \<and> scrollViewRef st \<longrightarrow>
        tick p st' =
          st'\<lparr>timers := [],
               calls := calls st' @ [CallScrollToOffset (getItemOffset p target) True]\<rparr>)"
proof -
  from assms obtain xs where xs: "data p = Some xs" and len: "target < int (length xs)"
    by (cases "data p") (simp_all add: dataLength_def)
  from assms len have at: "at_index xs target = Some (xs ! nat target)"
    by (simp add: at_index_def)
  let ?st' = "st\<lparr>calls := calls st @
                   (if onScrollEnd p then [CallOnScrollEnd (Some (xs ! nat target)) target]
                    else []),
               currentIndexRef := target, timers := timers st @ [target]\<rparr>"
  from assms xs at have run: "scrollToIndex p target st = Inr ?st'"
    by (simp add: scrollToIndex_def)
  have "timers st = [] \<and> scrollViewRef st \<longrightarrow>
        tick p ?st' =
          ?st'\<lparr>timers := [],
               calls := calls ?st' @ [CallScrollToOffset (getItemOffset p target) True]\<rparr>"
    by (simp add: tick_def runTimer_def)
  with xs run show ?thesis
    by blast
qed

text \<open>C4 at the example of the spec: scrolling to item 3 (offset 744) after mounting.\<close>

theorem scrollToIndex_in_range_witness:
  "scrollToIndex spec_example 3 (mount spec_example) =
     Inr \<lparr>currentIndexRef = 3, scrollXRef = 0, scrollXBeginRef = 0, scrollViewRef = True,
          scrollState = 0, timers = [3], calls = [CallOnScrollEnd (Some ''d'') 3]\<rparr> \<and>
   tick spec_example
     \<lparr>currentIndexRef = 3, scrollXRef = 0, scrollXBeginRef = 0, scrollViewRef = True,
      scrollState = 0, timers = [3], calls = [CallOnScrollEnd (Some ''d'') 3]\<rparr> =
     \<lparr>currentIndexRef = 3, scrollXRef = 0, scrollXBeginRef = 0, scrollViewRef = True,
      scrollState = 0, timers = [],
      calls = [CallOnScrollEnd (Some ''d'') 3, CallScrollToOffset 744 True]\<rparr>"
proof -
  have len: "dataLength spec_example = 5"
    by (simp add: spec_example_def dataLength_def)
  have off: "getItemOffset spec_example 3 = 744"
    by (simp add: spec_example_def geometry_defs)
  have d: "data spec_example = Some [''a'', ''b'', ''c'', ''d'', ''e'']" "onScrollEnd spec_example"
    by (simp_all add: spec_example_def)
  have n: "[''a'', ''b'', ''c'', ''d'', ''e''] ! nat 3 = ''d''"
    by (simp add: eval_nat_numeral)
  from scrollToIndex_in_range [of 3 spec_example "mount spec_example"] show ?thesis
    by (auto simp add: len off d n mount_def)
qed

subsection \<open>Releasing a drag\<close>

text \<open>
  C8. When the live scroll offset is negative at the end of a drag, the handler returns
  normally right after notifying \<open>onScrollEndDrag\<close>: the state is as before but for that
  notification, so the current index and the timers are unchanged and the log has no
  \<open>onScrollEnd\<close> call and no scroll command, the only traces \<open>scrollToIndex\<close> can leave.
\<close>

theorem handleOnScrollEndDrag_negative_offset:
  assumes "scrollXRef st < 0"
  shows "handleOnScrollEndDrag p st =
     Inr (st\<lparr>calls := calls st @ (if onScrollEndDrag p then [CallOnScrollEndDrag] else [])\<rparr>)"
  using assms by (simp add: handleOnScrollEndDrag_def Let_def)

text \<open>C8 at the example of the spec, released while overscrolled to -12.\<close>

theorem handleOnScrollEndDrag_negative_offset_witness:
  "scrollXRef overscrolled < 0 \<and>
   handleOnScrollEndDrag spec_example overscrolled =
     Inr \<lparr>currentIndexRef = 2, scrollXRef = - 12, scrollXBeginRef = 0, scrollViewRef = True,
          scrollState = - 12, timers = [],
          calls = [CallOnScrollBeginDrag, CallOnScrollEndDrag]\<rparr>"
proof -
  have neg: "scrollXRef overscrolled < 0"
    by (simp add: overscrolled_def onScroll_def)
  have cb: "onScrollEndDrag spec_example" "onScrollBeginDrag spec_example" "initialIndex spec_example = 2"
    by (simp_all add: spec_example_def)
  from handleOnScrollEndDrag_negative_offset [OF neg, of spec_example] neg show ?thesis
    by (simp add: cb overscrolled_def onScroll_def handleOnScrollBeginDrag_def mount_def)
qed



end
